theory Spec2Isabelle
  imports Complex_Main "HOL-Library.Char_ord" "HOL-Library.List_Lexorder"
    "HOL-Library.Product_Lexorder"
begin

section \<open>Values\<close>

text \<open>
  A Python \<^verbatim>\<open>float\<close>: a finite double, given by the real number it denotes, an
  infinity (\<open>True\<close> for the positive one) or NaN.
\<close>

datatype pyfloat = Finite real | Infinity bool | NaN

text \<open>
  The values \<^verbatim>\<open>json.loads\<close> can return. A \<^verbatim>\<open>str\<close> is its UTF-8 byte sequence;
  \<open>PStrSurrogate\<close> stands for a \<^verbatim>\<open>str\<close> that holds a lone surrogate, as
  \<^verbatim>\<open>json.loads\<close> returns for the escape of one, and that has no UTF-8 encoding. A
  \<^verbatim>\<open>dict\<close> is an association list read with \<open>map_of\<close>.
\<close>

datatype pyval =
    PNone
  | PBool bool
  | PInt int
  | PFloat pyfloat
  | PStr string
  | PStrSurrogate
  | PList "pyval list"
  | PDict "(string \<times> pyval) list"

text \<open>
  The exceptions the modelled code can meet. Every one of them is a subclass of
  \<^verbatim>\<open>Exception\<close>; the last three are the subclasses of \<^verbatim>\<open>sqlite3.Error\<close>.
\<close>

datatype exn =
    UnicodeDecodeError
  | UnicodeEncodeError
  | JSONDecodeError
  | RecursionError
  | AttributeError
  | ValueError
  | TypeError
  | OverflowError
  | OperationalError
  | IntegrityError
  | ProgrammingError

fun is_sqlite3_Error :: "exn \<Rightarrow> bool" where
  "is_sqlite3_Error OperationalError = True"
| "is_sqlite3_Error IntegrityError = True"
| "is_sqlite3_Error ProgrammingError = True"
| "is_sqlite3_Error _ = False"

text \<open>
  The storage classes of SQLite that this program can produce. A REAL is a finite
  double, given by the real number it denotes, or an infinity (\<open>SqlInf True\<close> the
  positive one); SQLite has no NaN.
\<close>

datatype sqlval =
    SqlNull
  | SqlInt int
  | SqlReal real
  | SqlInf bool
  | SqlText string

text \<open>
  SQLite compares values of different storage classes by class (NULL, then numbers,
  then text), numbers by their numeric value whatever their class (the negative
  infinity first, the positive one last), and text bytewise (the BINARY collation).
\<close>

fun sql_class :: "sqlval \<Rightarrow> nat" where
  "sql_class SqlNull = 0"
| "sql_class (SqlInt _) = 1"
| "sql_class (SqlReal _) = 1"
| "sql_class (SqlInf _) = 1"
| "sql_class (SqlText _) = 2"

fun sql_rank :: "sqlval \<Rightarrow> int" where
  "sql_rank (SqlInf b) = (if b then 1 else - 1)"
| "sql_rank _ = 0"

fun sql_num :: "sqlval \<Rightarrow> real" where
  "sql_num (SqlInt i) = of_int i"
| "sql_num (SqlReal r) = r"
| "sql_num _ = 0"

fun sql_text :: "sqlval \<Rightarrow> string" where
  "sql_text (SqlText s) = s"
| "sql_text _ = []"

definition sql_key :: "sqlval \<Rightarrow> nat \<times> int \<times> real \<times> string" where
  "sql_key v = (sql_class v, sql_rank v, sql_num v, sql_text v)"

definition sql_le :: "sqlval \<Rightarrow> sqlval \<Rightarrow> bool" where
  "sql_le a b = (sql_key a \<le> sql_key b)"

definition sql_lt :: "sqlval \<Rightarrow> sqlval \<Rightarrow> bool" where
  "sql_lt a b = (sql_key a < sql_key b)"

text \<open>
  The operator \<^verbatim>\<open>=\<close> is not true when a side is NULL; DISTINCT and GROUP BY take two
  NULLs as the same value (\<open>sql_is\<close>).
\<close>

definition sql_eq :: "sqlval \<Rightarrow> sqlval \<Rightarrow> bool" where
  "sql_eq a b = (a \<noteq> SqlNull \<and> b \<noteq> SqlNull \<and> sql_key a = sql_key b)"

definition sql_is :: "sqlval \<Rightarrow> sqlval \<Rightarrow> bool" where
  "sql_is a b = (sql_key a = sql_key b)"

section \<open>The store\<close>

text \<open>
  One row of \<^verbatim>\<open>sensor_readings\<close>. The columns \<^verbatim>\<open>sensor_name\<close>, \<^verbatim>\<open>sensor_type\<close> and
  \<^verbatim>\<open>unit\<close> are declared TEXT NOT NULL and so always hold text; \<^verbatim>\<open>value\<close> (REAL) and
  \<^verbatim>\<open>timestamp\<close> (DATETIME, of NUMERIC affinity) can hold a number or text, because
  SQLite keeps text that is not a number as text in any column.
\<close>

record row =
  row_id :: int
  sensor_name :: string
  sensor_type :: string
  value_col :: sqlval
  unit_col :: string
  timestamp :: sqlval
  received_at :: string

text \<open>
  The contents of \<^verbatim>\<open>DB_FILE\<close>: the table (absent until created), the indexes as
  (name, table, column), and the counter of AUTOINCREMENT.
\<close>

record database =
  sensor_readings :: "row list option"
  indexes :: "(string \<times> string \<times> string) list"
  sqlite_sequence :: int

datatype level = INFO | WARNING | ERROR

datatype event =
    DatabaseInitialized
  | DatabaseInitializationError
  | UnexpectedTopicFormat string
  | NoValueInPayload string
  | ReadingStored int pyval pyval pyval pyval
  | InvalidJSONPayload string
  | ErrorProcessingMessage string exn
  | DatabaseNotInitialized
  | DatabaseError exn
  | DatabaseQueryError exn
  | DatabaseSummary
  | SummaryLine string string int sqlval sqlval sqlval
  | UnexpectedErrorInMainLoop exn
  | CleaningUp

datatype connection = Connection

text \<open>The module's globals, the database file and the records given to the logger.\<close>

record state =
  db_connection :: "connection option"
  db_file :: database
  messages_received :: int
  logged :: "(level \<times> event) list"

text \<open>
  What the surroundings supply to one call: whether \<^verbatim>\<open>sqlite3.connect\<close> succeeds,
  whether the storage takes a write (the disk is not full, the file not locked), the
  two clocks (\<^verbatim>\<open>datetime.now().isoformat()\<close> and SQLite's CURRENT_TIMESTAMP), and
  three computations of SQLite that are taken as they are: the number a text is a
  well-formed literal of (if any), the text a number is rendered as, and the result of
  \<^verbatim>\<open>AVG\<close> on the values of a group that are not NULL, which SQLite computes in
  double arithmetic, with its rounding and its overflow, reading a text as a number.
\<close>

record env =
  connect_ok :: bool
  write_ok :: bool
  now :: string
  current_timestamp :: string
  numeric_of_text :: "string \<Rightarrow> sqlval option"
  text_of_numeric :: "sqlval \<Rightarrow> string"
  avg_of :: "sqlval list \<Rightarrow> sqlval"

definition logger :: "level \<Rightarrow> event \<Rightarrow> state \<Rightarrow> state" where
  "logger l e st = st\<lparr>logged := logged st @ [(l, e)]\<rparr>"

section \<open>init_database\<close>

text \<open>\<^verbatim>\<open>CREATE TABLE IF NOT EXISTS sensor_readings (...)\<close>\<close>

definition create_table :: "database \<Rightarrow> database" where
  "create_table db =
     (case sensor_readings db of
        None \<Rightarrow> db\<lparr>sensor_readings := Some []\<rparr>
      | Some _ \<Rightarrow> db)"

text \<open>\<^verbatim>\<open>CREATE INDEX IF NOT EXISTS name ON sensor_readings(column)\<close>\<close>

definition create_index :: "string \<Rightarrow> string \<Rightarrow> database \<Rightarrow> exn + database" where
  "create_index name column db =
     (if name \<in> fst ` set (indexes db) then Inr db
      else if sensor_readings db = None then Inl OperationalError
      else Inr (db\<lparr>indexes := indexes db @ [(name, ''sensor_readings'', column)]\<rparr>))"

definition init_database :: "env \<Rightarrow> state \<Rightarrow> bool \<times> state" where
  "init_database env st =
     (if \<not> connect_ok env then (False, logger ERROR DatabaseInitializationError st)
      else
        let st1 = st\<lparr>db_connection := Some Connection\<rparr>;
            db1 = create_table (db_file st1)
        in case create_index ''idx_timestamp'' ''timestamp'' db1 of
             Inl e \<Rightarrow>
               (False, logger ERROR DatabaseInitializationError (st1\<lparr>db_file := db1\<rparr>))
           | Inr db2 \<Rightarrow>
               (case create_index ''idx_sensor_name'' ''sensor_name'' db2 of
                  Inl e \<Rightarrow>
                    (False, logger ERROR DatabaseInitializationError (st1\<lparr>db_file := db2\<rparr>))
                | Inr db3 \<Rightarrow> (True, logger INFO DatabaseInitialized (st1\<lparr>db_file := db3\<rparr>))))"

section \<open>store_reading\<close>

text \<open>
  How the \<^verbatim>\<open>sqlite3\<close> module binds a Python value to a parameter: \<^verbatim>\<open>None\<close> as NULL,
  an \<^verbatim>\<open>int\<close> (and a \<^verbatim>\<open>bool\<close>, its subclass) as a 64-bit INTEGER or an
  \<^verbatim>\<open>OverflowError\<close>, a \<^verbatim>\<open>float\<close> as REAL, but NaN as NULL, a \<^verbatim>\<open>str\<close> as the
  TEXT of its UTF-8 encoding or, when it has none, a \<^verbatim>\<open>UnicodeEncodeError\<close>; a list or
  a dict is an unsupported type, a \<^verbatim>\<open>sqlite3.Error\<close>.
\<close>

fun bind_param :: "pyval \<Rightarrow> exn + sqlval" where
  "bind_param PNone = Inr SqlNull"
| "bind_param (PBool b) = Inr (SqlInt (if b then 1 else 0))"
| "bind_param (PInt i) =
     (if - (2 ^ 63) \<le> i \<and> i < 2 ^ 63 then Inr (SqlInt i) else Inl OverflowError)"
| "bind_param (PFloat (Finite r)) = Inr (SqlReal r)"
| "bind_param (PFloat (Infinity b)) = Inr (SqlInf b)"
| "bind_param (PFloat NaN) = Inr SqlNull"
| "bind_param (PStr s) = Inr (SqlText s)"
| "bind_param PStrSurrogate = Inl UnicodeEncodeError"
| "bind_param (PList _) = Inl ProgrammingError"
| "bind_param (PDict _) = Inl ProgrammingError"

text \<open>The parameters are bound in order; the first failure is the one raised.\<close>

fun bind_params :: "pyval list \<Rightarrow> exn + sqlval list" where
  "bind_params [] = Inr []"
| "bind_params (p # ps) =
     (case bind_param p of
        Inl e \<Rightarrow> Inl e
      | Inr v \<Rightarrow> (case bind_params ps of Inl e \<Rightarrow> Inl e | Inr vs \<Rightarrow> Inr (v # vs)))"

text \<open>Column affinity, applied to a value that is not NULL before it is stored.\<close>

fun text_affinity :: "env \<Rightarrow> sqlval \<Rightarrow> string" where
  "text_affinity env (SqlText s) = s"
| "text_affinity env v = text_of_numeric env v"

definition integer_if_exact :: "real \<Rightarrow> sqlval" where
  "integer_if_exact r =
     (if r = of_int \<lfloor>r\<rfloor> \<and> - (2 ^ 63) < r \<and> r < 2 ^ 63 then SqlInt \<lfloor>r\<rfloor> else SqlReal r)"

fun numeric_affinity :: "env \<Rightarrow> sqlval \<Rightarrow> sqlval" where
  "numeric_affinity env (SqlText s) =
     (case numeric_of_text env s of
        None \<Rightarrow> SqlText s
      | Some (SqlReal r) \<Rightarrow> integer_if_exact r
      | Some n \<Rightarrow> n)"
| "numeric_affinity env (SqlReal r) = integer_if_exact r"
| "numeric_affinity env v = v"

text \<open>
  The double an integer is converted to: the integer itself when it has at most 53
  significant bits, and otherwise the nearest number of 53 significant bits, the one
  with an even last bit when two are as near.
\<close>

function dropped_bits :: "nat \<Rightarrow> nat" where
  "dropped_bits n = (if n < 2 ^ 53 then 0 else Suc (dropped_bits (n div 2)))"
  by pat_completeness auto
termination
  by (relation "measure (\<lambda>n. n)") auto

declare dropped_bits.simps [simp del]

definition double_of_int :: "int \<Rightarrow> real" where
  "double_of_int i =
     (let n = nat \<bar>i\<bar>;
          e = dropped_bits n;
          q = n div 2 ^ e;
          r = n mod 2 ^ e;
          q' = (if 2 ^ e < 2 * r \<or> (2 * r = 2 ^ e \<and> odd q) then q + 1 else q)
      in (if i < 0 then - 1 else 1) * real (q' * 2 ^ e))"

fun as_real :: "sqlval \<Rightarrow> sqlval" where
  "as_real (SqlInt i) = SqlReal (double_of_int i)"
| "as_real v = v"

fun real_affinity :: "env \<Rightarrow> sqlval \<Rightarrow> sqlval" where
  "real_affinity env (SqlText s) =
     (case numeric_of_text env s of
        None \<Rightarrow> SqlText s
      | Some n \<Rightarrow> as_real n)"
| "real_affinity env v = as_real v"

text \<open>
  The rowid AUTOINCREMENT gives: one more than every rowid the table has ever had, and
  none when the largest rowid of 64 bits has been used.
\<close>

definition largest_rowid :: "database \<Rightarrow> row list \<Rightarrow> int" where
  "largest_rowid db rows = fold max (map row_id rows) (max 0 (sqlite_sequence db))"

definition next_rowid :: "database \<Rightarrow> row list \<Rightarrow> int option" where
  "next_rowid db rows =
     (if 2 ^ 63 - 1 \<le> largest_rowid db rows then None else Some (largest_rowid db rows + 1))"

text \<open>
  \<^verbatim>\<open>INSERT INTO sensor_readings (sensor_name, sensor_type, value, unit, timestamp)
  VALUES (?, ?, ?, ?, ?)\<close>: the statement is prepared (the table must exist), the
  parameters are bound, the new rowid is taken, the NOT NULL constraints are checked,
  and the row is written and committed.
\<close>

definition insert_reading :: "env \<Rightarrow> database \<Rightarrow> pyval list \<Rightarrow> exn + database" where
  "insert_reading env db params =
     (case sensor_readings db of
        None \<Rightarrow> Inl OperationalError
      | Some rows \<Rightarrow>
          (case bind_params params of
             Inl e \<Rightarrow> Inl e
           | Inr vs \<Rightarrow>
               (case vs of
                  [n, t, v, u, ts] \<Rightarrow>
                    (case next_rowid db rows of
                       None \<Rightarrow> Inl OperationalError
                     | Some rid \<Rightarrow>
                         if SqlNull \<in> set vs then Inl IntegrityError
                         else if \<not> write_ok env then Inl OperationalError
                         else
                           let r = \<lparr>row_id = rid,
                                    sensor_name = text_affinity env n,
                                    sensor_type = text_affinity env t,
                                    value_col = real_affinity env v,
                                    unit_col = text_affinity env u,
                                    timestamp = numeric_affinity env ts,
                                    received_at = current_timestamp env\<rparr>
                           in Inr (db\<lparr>sensor_readings := Some (rows @ [r]),
                                      sqlite_sequence := rid\<rparr>))
                | _ \<Rightarrow> Inl ProgrammingError)))"

datatype 'a result = Value 'a | Raised exn

definition store_reading ::
  "env \<Rightarrow> state \<Rightarrow> pyval \<Rightarrow> pyval \<Rightarrow> pyval \<Rightarrow> pyval \<Rightarrow> pyval \<Rightarrow> bool result \<times> state" where
  "store_reading env st name kind value unit ts =
     (case db_connection st of
        None \<Rightarrow> (Value False, logger ERROR DatabaseNotInitialized st)
      | Some _ \<Rightarrow>
          (case insert_reading env (db_file st) [name, kind, value, unit, ts] of
             Inr db' \<Rightarrow> (Value True, st\<lparr>db_file := db'\<rparr>)
           | Inl e \<Rightarrow>
               if is_sqlite3_Error e then (Value False, logger ERROR (DatabaseError e) st)
               else (Raised e, st)))"

section \<open>on_message\<close>

text \<open>\<^verbatim>\<open>str.split(sep)\<close> for a separator of one character.\<close>

fun split :: "char \<Rightarrow> string \<Rightarrow> string list" where
  "split c [] = [] # []"
| "split c (x # xs) =
     (if x = c then [] # split c xs
      else (case split c xs of [] \<Rightarrow> [x] # [] | p # ps \<Rightarrow> (x # p) # ps))"

text \<open>\<^verbatim>\<open>dict.get(key, default)\<close>\<close>

definition dict_get :: "(string \<times> pyval) list \<Rightarrow> string \<Rightarrow> pyval \<Rightarrow> pyval" where
  "dict_get d k dflt = (case map_of d k of None \<Rightarrow> dflt | Some v \<Rightarrow> v)"

text \<open>
  A delivered message: the topic, a string, and what
  \<^verbatim>\<open>json.loads(msg.payload.decode())\<close> does on the payload's bytes, which is to raise
  or to return a value.
\<close>

record message =
  topic :: string
  payload :: "exn + pyval"

text \<open>
  Lines 128 to 145 of \<^verbatim>\<open>on_message\<close>: the topic and the payload are taken apart, and
  the message is dropped, an exception is raised, or the five arguments of
  \<^verbatim>\<open>store_reading\<close> are ready.
\<close>

datatype decoded =
    BadTopic
  | Raises exn
  | NoValue
  | Candidate pyval pyval pyval pyval pyval

definition decode :: "env \<Rightarrow> message \<Rightarrow> decoded" where
  "decode env msg =
     (let topic_parts = split CHR ''/'' (topic msg)
      in if length topic_parts \<noteq> 3 then BadTopic
         else
           let name = topic_parts ! 1;
               kind = topic_parts ! 2
           in case payload msg of
                Inl e \<Rightarrow> Raises e
              | Inr (PDict d) \<Rightarrow>
                  let value = dict_get d ''value'' PNone;
                      unit = dict_get d ''unit'' (PStr '''');
                      ts = dict_get d ''timestamp'' (PStr (now env))
                  in if value = PNone then NoValue
                     else Candidate (PStr name) (PStr kind) value unit ts
              | Inr _ \<Rightarrow> Raises AttributeError)"

text \<open>
  The format \<^verbatim>\<open>{value:6.1f}\<close> of the log line written after a successful store:
  it takes a number and raises on anything else.
\<close>

fun format_6_1f :: "pyval \<Rightarrow> exn option" where
  "format_6_1f (PBool _) = None"
| "format_6_1f (PInt _) = None"
| "format_6_1f (PFloat _) = None"
| "format_6_1f (PStr _) = Some ValueError"
| "format_6_1f PStrSurrogate = Some ValueError"
| "format_6_1f _ = Some TypeError"

text \<open>The body of the \<^verbatim>\<open>try\<close> block.\<close>

definition on_message_try :: "env \<Rightarrow> state \<Rightarrow> message \<Rightarrow> unit result \<times> state" where
  "on_message_try env st msg =
     (let st1 = st\<lparr>messages_received := messages_received st + 1\<rparr>
      in case decode env msg of
           BadTopic \<Rightarrow> (Value (), logger WARNING (UnexpectedTopicFormat (topic msg)) st1)
         | Raises e \<Rightarrow> (Raised e, st1)
         | NoValue \<Rightarrow> (Value (), logger WARNING (NoValueInPayload (topic msg)) st1)
         | Candidate name kind value unit ts \<Rightarrow>
             (case store_reading env st1 name kind value unit ts of
                (Raised e, st2) \<Rightarrow> (Raised e, st2)
              | (Value False, st2) \<Rightarrow> (Value (), st2)
              | (Value True, st2) \<Rightarrow>
                  (case format_6_1f value of
                     Some e \<Rightarrow> (Raised e, st2)
                   | None \<Rightarrow>
                       (Value (),
                        logger INFO
                          (ReadingStored (messages_received st2) name kind value unit)
                          st2))))"

text \<open>
  \<^verbatim>\<open>on_message\<close> with its two handlers. \<open>Value ()\<close> is a normal return; \<open>Raised e\<close>
  would be an exception leaving the callback.
\<close>

definition on_message :: "env \<Rightarrow> state \<Rightarrow> message \<Rightarrow> unit result \<times> state" where
  "on_message env st msg =
     (case on_message_try env st msg of
        (Value u, st') \<Rightarrow> (Value (), st')
      | (Raised e, st') \<Rightarrow>
          if e = JSONDecodeError
          then (Value (), logger WARNING (InvalidJSONPayload (topic msg)) st')
          else (Value (), logger ERROR (ErrorProcessingMessage (topic msg) e) st'))"

section \<open>The queries\<close>

text \<open>
  The aggregates \<^verbatim>\<open>MAX\<close>, \<^verbatim>\<open>MIN\<close> and \<^verbatim>\<open>AVG\<close> over the values of a group: NULLs are
  left out, and the result is NULL when nothing is left. \<^verbatim>\<open>MAX\<close> and \<^verbatim>\<open>MIN\<close> return
  one of the values; what \<^verbatim>\<open>AVG\<close> returns is the environment's.
\<close>

definition sql_max :: "sqlval \<Rightarrow> sqlval \<Rightarrow> sqlval" where
  "sql_max a b = (if sql_lt a b then b else a)"

definition sql_min :: "sqlval \<Rightarrow> sqlval \<Rightarrow> sqlval" where
  "sql_min a b = (if sql_lt b a then b else a)"

definition agg_max :: "sqlval list \<Rightarrow> sqlval" where
  "agg_max vs =
     (case filter (\<lambda>v. v \<noteq> SqlNull) vs of
        [] \<Rightarrow> SqlNull
      | w # ws \<Rightarrow> fold (\<lambda>x acc. sql_max acc x) ws w)"

definition agg_min :: "sqlval list \<Rightarrow> sqlval" where
  "agg_min vs =
     (case filter (\<lambda>v. v \<noteq> SqlNull) vs of
        [] \<Rightarrow> SqlNull
      | w # ws \<Rightarrow> fold (\<lambda>x acc. sql_min acc x) ws w)"

definition agg_avg :: "env \<Rightarrow> sqlval list \<Rightarrow> sqlval" where
  "agg_avg env vs =
     (case filter (\<lambda>v. v \<noteq> SqlNull) vs of
        [] \<Rightarrow> SqlNull
      | w # ws \<Rightarrow> avg_of env (w # ws))"

subsection \<open>get_latest_readings\<close>

type_synonym latest_row = "string \<times> string \<times> sqlval \<times> string \<times> sqlval"

text \<open>\<^verbatim>\<open>SELECT sensor_name, MAX(timestamp) FROM sensor_readings GROUP BY sensor_name\<close>\<close>

definition latest_subquery :: "row list \<Rightarrow> (string \<times> sqlval) list" where
  "latest_subquery rows =
     map (\<lambda>n. (n, agg_max (map timestamp (filter (\<lambda>r. sensor_name r = n) rows))))
       (remdups (map sensor_name rows))"

text \<open>\<^verbatim>\<open>WHERE (sensor_name, timestamp) IN (...)\<close>\<close>

definition in_subquery :: "(string \<times> sqlval) list \<Rightarrow> row \<Rightarrow> bool" where
  "in_subquery sub r = list_ex (\<lambda>(n, m). sensor_name r = n \<and> sql_eq (timestamp r) m) sub"

definition selected :: "row \<Rightarrow> latest_row" where
  "selected r = (sensor_name r, sensor_type r, value_col r, unit_col r, timestamp r)"

text \<open>\<^verbatim>\<open>DISTINCT\<close>: of result rows equal in every column, one is kept.\<close>

fun same_result :: "latest_row \<Rightarrow> latest_row \<Rightarrow> bool" where
  "same_result (n, t, v, u, ts) (n', t', v', u', ts') =
     (n = n' \<and> t = t' \<and> sql_is v v' \<and> u = u' \<and> sql_is ts ts')"

fun distinct_rows :: "latest_row list \<Rightarrow> latest_row list" where
  "distinct_rows [] = []"
| "distinct_rows (x # xs) = x # distinct_rows (filter (\<lambda>y. \<not> same_result x y) xs)"

text \<open>
  \<^verbatim>\<open>ORDER BY sensor_name, sensor_type\<close>. SQLite leaves the order of rows with equal
  keys open; the model keeps them in the order of the table.
\<close>

definition order_key :: "latest_row \<Rightarrow> string \<times> string" where
  "order_key x = (fst x, fst (snd x))"

definition select_latest :: "row list \<Rightarrow> latest_row list" where
  "select_latest rows =
     sort_key order_key
       (distinct_rows (map selected (filter (in_subquery (latest_subquery rows)) rows)))"

definition get_latest_readings :: "state \<Rightarrow> latest_row list option \<times> state" where
  "get_latest_readings st =
     (case db_connection st of
        None \<Rightarrow> (None, st)
      | Some _ \<Rightarrow>
          (case sensor_readings (db_file st) of
             None \<Rightarrow> (None, logger ERROR (DatabaseQueryError OperationalError) st)
           | Some rows \<Rightarrow> (Some (select_latest rows), st)))"

subsection \<open>get_readings_summary\<close>

type_synonym summary_row = "string \<times> string \<times> int \<times> sqlval \<times> sqlval \<times> sqlval"

definition group_values :: "row list \<Rightarrow> string \<times> string \<Rightarrow> sqlval list" where
  "group_values rows g =
     map value_col (filter (\<lambda>r. (sensor_name r, sensor_type r) = g) rows)"

definition summarize :: "env \<Rightarrow> row list \<Rightarrow> string \<times> string \<Rightarrow> summary_row" where
  "summarize env rows g =
     (let vs = group_values rows g
      in (fst g, snd g, int (length vs), agg_min vs, agg_max vs, agg_avg env vs))"

definition summary_key :: "summary_row \<Rightarrow> string \<times> string" where
  "summary_key x = (fst x, fst (snd x))"

definition select_summary :: "env \<Rightarrow> row list \<Rightarrow> summary_row list" where
  "select_summary env rows =
     sort_key summary_key
       (map (summarize env rows) (remdups (map (\<lambda>r. (sensor_name r, sensor_type r)) rows)))"

definition get_readings_summary :: "env \<Rightarrow> state \<Rightarrow> summary_row list option \<times> state" where
  "get_readings_summary env st =
     (case db_connection st of
        None \<Rightarrow> (None, st)
      | Some _ \<Rightarrow>
          (case sensor_readings (db_file st) of
             None \<Rightarrow> (None, logger ERROR (DatabaseQueryError OperationalError) st)
           | Some rows \<Rightarrow> (Some (select_summary env rows), st)))"

section \<open>main\<close>

text \<open>
  What a value fetched from the database is to the format \<^verbatim>\<open>{x:6.1f}\<close>: a REAL is a
  \<^verbatim>\<open>float\<close> and an INTEGER an \<^verbatim>\<open>int\<close>, which it takes; a TEXT is a \<^verbatim>\<open>str\<close> and NULL
  is \<^verbatim>\<open>None\<close>, on which it raises.
\<close>

fun format_fetched :: "sqlval \<Rightarrow> exn option" where
  "format_fetched (SqlText _) = Some ValueError"
| "format_fetched SqlNull = Some TypeError"
| "format_fetched _ = None"

text \<open>
  The \<^verbatim>\<open>for\<close> loop over the rows of the summary: a line is logged for each row, with
  its minimum, maximum and average formatted in this order, until a format raises.
\<close>

fun log_summary :: "summary_row list \<Rightarrow> state \<Rightarrow> unit result \<times> state" where
  "log_summary [] st = (Value (), st)"
| "log_summary ((n, k, c, mn, mx, av) # rows) st =
     (case format_fetched mn of
        Some e \<Rightarrow> (Raised e, st)
      | None \<Rightarrow>
          (case format_fetched mx of
             Some e \<Rightarrow> (Raised e, st)
           | None \<Rightarrow>
               (case format_fetched av of
                  Some e \<Rightarrow> (Raised e, st)
                | None \<Rightarrow> log_summary rows (logger INFO (SummaryLine n k c mn mx av) st))))"

text \<open>One pass of the body of \<^verbatim>\<open>while True\<close>, after the sleep.\<close>

definition summary_pass :: "env \<Rightarrow> state \<Rightarrow> unit result \<times> state" where
  "summary_pass env st =
     (case get_readings_summary env st of
        (None, st1) \<Rightarrow> (Value (), st1)
      | (Some [], st1) \<Rightarrow> (Value (), st1)
      | (Some (x # xs), st1) \<Rightarrow> log_summary (x # xs) (logger INFO DatabaseSummary st1))"

text \<open>
  \<^verbatim>\<open>cleanup\<close> stops the MQTT client and closes the database: no message is handled
  after it. The model keeps its log line.
\<close>

definition cleanup :: "state \<Rightarrow> state" where
  "cleanup st = logger INFO CleaningUp st"

text \<open>
  The loop of \<^verbatim>\<open>main\<close> at one pass: it goes on when the pass returns; when the pass
  raises, the handler around the loop logs the exception, \<^verbatim>\<open>cleanup\<close> runs and the
  process ends.
\<close>

datatype running = Running | Stopped

definition main_pass :: "env \<Rightarrow> state \<Rightarrow> running \<times> state" where
  "main_pass env st =
     (case summary_pass env st of
        (Value u, st') \<Rightarrow> (Running, st')
      | (Raised e, st') \<Rightarrow> (Stopped, cleanup (logger ERROR (UnexpectedErrorInMainLoop e) st')))"

section \<open>Sample inputs\<close>

text \<open>
  The average of values whose sum and quotient are doubles, a text that is no number
  counting as 0: what \<^verbatim>\<open>AVG\<close> returns on the values used below.
\<close>

definition exact_avg :: "sqlval list \<Rightarrow> sqlval" where
  "exact_avg vs = SqlReal (sum_list (map sql_num vs) / real (length vs))"

text \<open>
  A sample environment and two states: before \<^verbatim>\<open>init_database\<close> has run on a new
  file, and after it. The conversions of the sample environment are those of SQLite on
  the texts used below, none of which is a numeric literal.
\<close>

definition sample_env :: env where
  "sample_env =
     \<lparr>connect_ok = True,
      write_ok = True,
      now = ''2024-01-01T00:10:00.000000'',
      current_timestamp = ''2024-01-01 00:10:00'',
      numeric_of_text = (\<lambda>s. None),
      text_of_numeric = (\<lambda>v. []),
      avg_of = exact_avg\<rparr>"

definition new_state :: state where
  "new_state =
     \<lparr>db_connection = None,
      db_file = \<lparr>sensor_readings = None, indexes = [], sqlite_sequence = 0\<rparr>,
      messages_received = 0,
      logged = []\<rparr>"

definition ready_state :: state where
  "ready_state =
     \<lparr>db_connection = Some Connection,
      db_file =
        \<lparr>sensor_readings = Some [],
         indexes = [(''idx_timestamp'', ''sensor_readings'', ''timestamp''),
                    (''idx_sensor_name'', ''sensor_readings'', ''sensor_name'')],
         sqlite_sequence = 0\<rparr>,
      messages_received = 0,
      logged = []\<rparr>"

definition reading ::
  "int \<Rightarrow> string \<Rightarrow> string \<Rightarrow> real \<Rightarrow> string \<Rightarrow> string \<Rightarrow> row" where
  "reading i n k x u t =
     \<lparr>row_id = i, sensor_name = n, sensor_type = k, value_col = SqlReal x, unit_col = u,
      timestamp = SqlText t, received_at = ''2024-01-01 00:10:00''\<rparr>"

definition state_with :: "row list \<Rightarrow> state" where
  "state_with rows =
     ready_state\<lparr>db_file := (db_file ready_state)
       \<lparr>sensor_readings := Some rows, sqlite_sequence := int (length rows)\<rparr>\<rparr>"

text \<open>Whether a value is a \<^verbatim>\<open>dict\<close>, the only kind of value with a method \<^verbatim>\<open>get\<close>.\<close>

fun is_dict :: "pyval \<Rightarrow> bool" where
  "is_dict (PDict _) = True"
| "is_dict _ = False"

definition bad_topic_message :: message where
  "bad_topic_message =
     \<lparr>topic = ''bad/topic'', payload = Inr (PDict [(''value'', PFloat (Finite 21.5))])\<rparr>"

definition number_message :: message where
  "number_message = \<lparr>topic = ''sensors/deskA/temperature'', payload = Inr (PInt 42)\<rparr>"

definition no_unit_message :: message where
  "no_unit_message =
     \<lparr>topic = ''sensors/deskA/temperature'', payload = Inr (PDict [(''value'', PFloat (Finite 21.5))])\<rparr>"

fun is_list :: "pyval \<Rightarrow> bool" where
  "is_list (PList _) = True"
| "is_list _ = False"

definition empty_name_message :: message where
  "empty_name_message =
     \<lparr>topic = ''sensors//temperature'', payload = Inr (PDict [(''value'', PFloat (Finite 21.5))])\<rparr>"

definition text_value_message :: message where
  "text_value_message =
     \<lparr>topic = ''sensors/deskB/humidity'', payload = Inr (PDict [(''value'', PStr ''abc'')])\<rparr>"

definition no_value_message :: message where
  "no_value_message =
     \<lparr>topic = ''sensors/deskB/humidity'', payload = Inr (PDict [(''unit'', PStr ''%'')])\<rparr>"

definition null_unit_message :: message where
  "null_unit_message =
     \<lparr>topic = ''sensors/deskA/temperature'',
      payload = Inr (PDict [(''value'', PFloat (Finite 21.5)), (''unit'', PNone)])\<rparr>"

definition good_message :: message where
  "good_message =
     \<lparr>topic = ''sensors/deskA/temperature'',
      payload = Inr (PDict [(''value'', PFloat (Finite 21.5)), (''unit'', PStr ''C''),
                            (''timestamp'', PStr ''2024-01-01T00:00:00'')])\<rparr>"

text \<open>
  What the column \<^verbatim>\<open>value\<close> holds for a numeric JSON value: a float that is not NaN
  as it is, an integer within the signed 64-bit range of an SQLite INTEGER as the
  double nearest to it.
\<close>

fun stored_value :: "pyval \<Rightarrow> sqlval option" where
  "stored_value (PFloat (Finite r)) = Some (SqlReal r)"
| "stored_value (PFloat (Infinity b)) = Some (SqlInf b)"
| "stored_value (PInt i) =
     (if - (2 ^ 63) \<le> i \<and> i < 2 ^ 63 then Some (SqlReal (double_of_int i)) else None)"
| "stored_value _ = None"

definition unit_only_message :: message where
  "unit_only_message =
     \<lparr>topic = ''sensors/deskA/temperature'',
      payload = Inr (PDict [(''value'', PFloat (Finite 21.5)), (''unit'', PStr ''C'')])\<rparr>"


definition populated_state :: state where
  "populated_state =
     new_state\<lparr>db_file :=
       \<lparr>sensor_readings = Some [reading 1 ''deskA'' ''temperature'' 21.5 ''C'' ''2024-01-01T00:00:00''],
        indexes = [],
        sqlite_sequence = 1\<rparr>\<rparr>"

text \<open>
  A row is a latest row of its sensor when its timestamp is not NULL and no row of the
  same \<^verbatim>\<open>sensor_name\<close>, of whatever kind, has a greater timestamp.
\<close>

definition latest_of_sensor :: "row list \<Rightarrow> row \<Rightarrow> bool" where
  "latest_of_sensor rows r =
     (timestamp r \<noteq> SqlNull \<and>
      (\<forall>r' \<in> set rows. sensor_name r' = sensor_name r \<longrightarrow> sql_le (timestamp r') (timestamp r)))"

definition tie_rows :: "row list" where
  "tie_rows =
     [reading 1 ''deskA'' ''temperature'' 21.5 ''C'' ''2024-01-01T00:00:00'',
      reading 2 ''deskA'' ''temperature'' 23 ''C'' ''2024-01-01T00:00:00'']"

definition scenario_rows :: "row list" where
  "scenario_rows =
     [reading 1 ''deskA'' ''temperature'' 21.5 ''C'' ''2024-01-01T00:00:00'',
      reading 2 ''deskA'' ''temperature'' 23 ''C'' ''2024-01-01T00:05:00'']"

section \<open>Facts about the handler\<close>

lemma split_not_Nil: "split c s \<noteq> []"
  by (induction s) (auto split: list.splits)

lemma split_no_separator: "c \<notin> set s \<Longrightarrow> split c s = [s]"
  by (induction s) auto

lemma split_at_separator: "c \<notin> set a \<Longrightarrow> split c (a @ c # b) = a # split c b"
  by (induction a) auto

lemma decode_BadTopic:
  "(decode env msg = BadTopic) = (length (split CHR ''/'' (topic msg)) \<noteq> 3)"
  by (auto simp: decode_def Let_def split: sum.splits pyval.splits)

lemma on_message_returns: "fst (on_message env st msg) = Value ()"
  by (simp add: on_message_def split: prod.splits result.splits)

lemma on_message_BadTopic:
  "decode env msg = BadTopic \<Longrightarrow>
   on_message env st msg =
     (Value (), logger WARNING (UnexpectedTopicFormat (topic msg))
        (st\<lparr>messages_received := messages_received st + 1\<rparr>))"
  by (simp add: on_message_def on_message_try_def)

lemma on_message_NoValue:
  "decode env msg = NoValue \<Longrightarrow>
   on_message env st msg =
     (Value (), logger WARNING (NoValueInPayload (topic msg))
        (st\<lparr>messages_received := messages_received st + 1\<rparr>))"
  by (simp add: on_message_def on_message_try_def)

lemma on_message_Raises:
  "decode env msg = Raises e \<Longrightarrow>
   on_message env st msg =
     (Value (),
      logger (if e = JSONDecodeError then WARNING else ERROR)
        (if e = JSONDecodeError then InvalidJSONPayload (topic msg)
         else ErrorProcessingMessage (topic msg) e)
        (st\<lparr>messages_received := messages_received st + 1\<rparr>))"
  by (simp add: on_message_def on_message_try_def)

lemma db_file_logger [simp]: "db_file (logger l e st) = db_file st"
  by (simp add: logger_def)

lemma messages_received_logger [simp]:
  "messages_received (logger l e st) = messages_received st"
  by (simp add: logger_def)

lemma db_file_store_reading:
  "db_file (snd (store_reading env st n k v u ts)) =
     (case db_connection st of
        None \<Rightarrow> db_file st
      | Some c \<Rightarrow>
          (case insert_reading env (db_file st) [n, k, v, u, ts] of
             Inl e \<Rightarrow> db_file st
           | Inr db' \<Rightarrow> db'))"
  by (simp add: store_reading_def split: option.splits sum.splits)

lemma messages_received_store_reading:
  "messages_received (snd (store_reading env st n k v u ts)) = messages_received st"
  by (simp add: store_reading_def split: option.splits sum.splits)

lemma snd_on_message_Candidate:
  "decode env msg = Candidate n k v u ts \<Longrightarrow>
   db_file (snd (on_message env st msg)) =
     db_file (snd (store_reading env (st\<lparr>messages_received := messages_received st + 1\<rparr>)
                     n k v u ts)) \<and>
   messages_received (snd (on_message env st msg)) = messages_received st + 1"
  by (cases "store_reading env (st\<lparr>messages_received := messages_received st + 1\<rparr>) n k v u ts")
     (auto simp: on_message_def on_message_try_def Let_def store_reading_def
           split: result.splits bool.splits option.splits sum.splits if_splits)

lemma db_file_on_message:
  "db_file (snd (on_message env st msg)) =
     (case decode env msg of
        Candidate n k v u ts \<Rightarrow>
          (case db_connection st of
             None \<Rightarrow> db_file st
           | Some c \<Rightarrow>
               (case insert_reading env (db_file st) [n, k, v, u, ts] of
                  Inl e \<Rightarrow> db_file st
                | Inr db' \<Rightarrow> db'))
      | _ \<Rightarrow> db_file st)"
proof (cases "decode env msg")
  case BadTopic
  then show ?thesis by (simp add: on_message_BadTopic)
next
  case (Raises e)
  then show ?thesis by (simp add: on_message_Raises)
next
  case NoValue
  then show ?thesis by (simp add: on_message_NoValue)
next
  case (Candidate n k v u ts)
  then show ?thesis
    by (simp add: snd_on_message_Candidate db_file_store_reading
             split: option.splits sum.splits)
qed

lemma messages_received_on_message:
  "messages_received (snd (on_message env st msg)) = messages_received st + 1"
proof (cases "decode env msg")
  case BadTopic
  then show ?thesis by (simp add: on_message_BadTopic)
next
  case (Raises e)
  then show ?thesis by (simp add: on_message_Raises)
next
  case NoValue
  then show ?thesis by (simp add: on_message_NoValue)
next
  case (Candidate n k v u ts)
  then show ?thesis by (simp add: snd_on_message_Candidate)
qed

section \<open>The claims\<close>

subsection \<open>C3: a topic that is not of three segments\<close>

text \<open>
  C3, as the code has it: when the topic does not split into exactly three segments,
  the handler returns, the database is as it was, and \<^verbatim>\<open>messages_received\<close> has been
  incremented by one: the counter counts every message received, and is incremented
  before the topic is looked at.
\<close>

theorem bad_topic_counted_not_stored:
  assumes "length (split CHR ''/'' (topic msg)) \<noteq> 3"
  shows "fst (on_message env st msg) = Value () \<and>
         db_file (snd (on_message env st msg)) = db_file st \<and>
         messages_received (snd (on_message env st msg)) = messages_received st + 1"
  using assms by (simp add: on_message_BadTopic decode_BadTopic)

theorem bad_topic_counted_not_stored_witness:
  "length (split CHR ''/'' (topic bad_topic_message)) \<noteq> 3 \<and>
   fst (on_message sample_env ready_state bad_topic_message) = Value () \<and>
   db_file (snd (on_message sample_env ready_state bad_topic_message)) = db_file ready_state \<and>
   messages_received (snd (on_message sample_env ready_state bad_topic_message)) =
     messages_received ready_state + 1"
proof -
  have h: "length (split CHR ''/'' (topic bad_topic_message)) \<noteq> 3"
    by (simp add: bad_topic_message_def)
  show ?thesis
    using h bad_topic_counted_not_stored [OF h, of sample_env ready_state] by simp
qed

text \<open>
  C3 as stated fails: on the topic \<^verbatim>\<open>bad/topic\<close>, of two segments, the counter goes
  from 0 to 1.
\<close>

theorem bad_topic_counter_changes:
  "length (split CHR ''/'' (topic bad_topic_message)) = 2 \<and>
   messages_received ready_state = 0 \<and>
   messages_received (snd (on_message sample_env ready_state bad_topic_message)) = 1"
  by (simp add: on_message_def on_message_try_def decode_def logger_def ready_state_def
        bad_topic_message_def)

subsection \<open>C5: one message and the pipeline\<close>

text \<open>
  C5 fails on the code. The handler itself returns on every message, but a message
  can still end the pipeline: on the topic \<^verbatim>\<open>sensors/deskB/humidity\<close> the payload
  \<^verbatim>\<open>{"value": "abc"}\<close> is handled without an exception leaving the handler, and it
  leaves a row whose value is a text; the loop of \<^verbatim>\<open>main\<close>, which went on before the
  message, then raises \<^verbatim>\<open>ValueError\<close> at the format of the minimum in its next pass,
  the handler around the loop logs it, and \<^verbatim>\<open>cleanup\<close> ends the process.
\<close>

theorem text_value_stops_main:
  "fst (main_pass sample_env ready_state) = Running \<and>
   fst (on_message sample_env ready_state text_value_message) = Value () \<and>
   fst (main_pass sample_env (snd (on_message sample_env ready_state text_value_message))) =
     Stopped \<and>
   logged (snd (main_pass sample_env
       (snd (on_message sample_env ready_state text_value_message)))) =
     [(ERROR, ErrorProcessingMessage ''sensors/deskB/humidity'' ValueError),
      (INFO, DatabaseSummary),
      (ERROR, UnexpectedErrorInMainLoop ValueError),
      (INFO, CleaningUp)]"
  by (simp add: main_pass_def summary_pass_def get_readings_summary_def select_summary_def
        summarize_def group_values_def agg_min_def agg_max_def agg_avg_def sql_min_def
        sql_max_def sql_lt_def sql_key_def summary_key_def
        on_message_def on_message_try_def decode_def logger_def ready_state_def
        text_value_message_def sample_env_def dict_get_def store_reading_def
        insert_reading_def next_rowid_def largest_rowid_def exact_avg_def cleanup_def)

subsection \<open>C9: the defaults of unit and timestamp\<close>

text \<open>
  C9: for every message whose topic has three segments and whose payload is a map
  with a \<^verbatim>\<open>value\<close> that is not null, the five arguments made ready for
  \<^verbatim>\<open>store_reading\<close> are the second and the third segment, the value, the payload's
  \<^verbatim>\<open>unit\<close> field when the map has one and the empty string when it has none, and the
  payload's \<^verbatim>\<open>timestamp\<close> field when the map has one and the clock's reading when it
  has none; and what the handler does to the database is what \<^verbatim>\<open>store_reading\<close> does
  with these five.
\<close>

theorem candidate_fields:
  assumes "split CHR ''/'' (topic msg) = [p, s, k]"
    and "payload msg = Inr (PDict d)"
    and "map_of d ''value'' = Some v"
    and "v \<noteq> PNone"
  shows "decode env msg =
           Candidate (PStr s) (PStr k) v
             (case map_of d ''unit'' of None \<Rightarrow> PStr [] | Some x \<Rightarrow> x)
             (case map_of d ''timestamp'' of None \<Rightarrow> PStr (now env) | Some x \<Rightarrow> x) \<and>
         db_file (snd (on_message env st msg)) =
           db_file (snd (store_reading env (st\<lparr>messages_received := messages_received st + 1\<rparr>)
             (PStr s) (PStr k) v
             (case map_of d ''unit'' of None \<Rightarrow> PStr [] | Some x \<Rightarrow> x)
             (case map_of d ''timestamp'' of None \<Rightarrow> PStr (now env) | Some x \<Rightarrow> x)))"
proof -
  have dec: "decode env msg =
           Candidate (PStr s) (PStr k) v
             (case map_of d ''unit'' of None \<Rightarrow> PStr [] | Some x \<Rightarrow> x)
             (case map_of d ''timestamp'' of None \<Rightarrow> PStr (now env) | Some x \<Rightarrow> x)"
    using assms by (simp add: decode_def dict_get_def)
  from snd_on_message_Candidate [OF dec, of st] dec show ?thesis by simp
qed

theorem candidate_fields_witness:
  "split CHR ''/'' (topic good_message) = [''sensors'', ''deskA'', ''temperature''] \<and>
   payload good_message =
     Inr (PDict [(''value'', PFloat (Finite 21.5)), (''unit'', PStr ''C''),
                 (''timestamp'', PStr ''2024-01-01T00:00:00'')]) \<and>
   PFloat (Finite 21.5) \<noteq> PNone \<and>
   decode sample_env good_message =
     Candidate (PStr ''deskA'') (PStr ''temperature'') (PFloat (Finite 21.5)) (PStr ''C'')
       (PStr ''2024-01-01T00:00:00'') \<and>
   db_file (snd (on_message sample_env ready_state good_message)) =
     db_file (snd (store_reading sample_env
       (ready_state\<lparr>messages_received := messages_received ready_state + 1\<rparr>)
       (PStr ''deskA'') (PStr ''temperature'') (PFloat (Finite 21.5)) (PStr ''C'')
       (PStr ''2024-01-01T00:00:00''))) \<and>
   split CHR ''/'' (topic no_unit_message) = [''sensors'', ''deskA'', ''temperature''] \<and>
   payload no_unit_message = Inr (PDict [(''value'', PFloat (Finite 21.5))]) \<and>
   decode sample_env no_unit_message =
     Candidate (PStr ''deskA'') (PStr ''temperature'') (PFloat (Finite 21.5)) (PStr [])
       (PStr (now sample_env))"
proof -
  let ?d = "[(''value'', PFloat (Finite 21.5)), (''unit'', PStr ''C''),
             (''timestamp'', PStr ''2024-01-01T00:00:00'')]"
  let ?e = "[(''value'', PFloat (Finite 21.5))]"
  have g1: "split CHR ''/'' (topic good_message) = [''sensors'', ''deskA'', ''temperature'']"
    by (simp add: good_message_def)
  have g2: "payload good_message = Inr (PDict ?d)"
    by (simp add: good_message_def)
  have g3: "map_of ?d ''value'' = Some (PFloat (Finite 21.5))" by simp
  have g4: "PFloat (Finite 21.5) \<noteq> PNone" by simp
  have n1: "split CHR ''/'' (topic no_unit_message) = [''sensors'', ''deskA'', ''temperature'']"
    by (simp add: no_unit_message_def)
  have n2: "payload no_unit_message = Inr (PDict ?e)"
    by (simp add: no_unit_message_def)
  have n3: "map_of ?e ''value'' = Some (PFloat (Finite 21.5))" by simp
  note a = candidate_fields [OF g1 g2 g3 g4, of sample_env ready_state]
  note b = candidate_fields [OF n1 n2 n3 g4, of sample_env ready_state, THEN conjunct1]
  show ?thesis
    using g1 g2 g4 a n1 n2 b by simp
qed

subsection \<open>C10: a payload that is not a map\<close>

text \<open>
  C10: when the payload is valid JSON but not a map, the handler returns, the database
  is as it was, and, the topic being of three segments, the \<^verbatim>\<open>AttributeError\<close> of
  \<^verbatim>\<open>payload.get\<close> is what the catch-all handler logs.
\<close>

theorem non_map_payload_dropped:
  assumes "payload msg = Inr p" and "\<not> is_dict p"
  shows "fst (on_message env st msg) = Value () \<and>
         db_file (snd (on_message env st msg)) = db_file st \<and>
         (length (split CHR ''/'' (topic msg)) = 3 \<longrightarrow>
            logged (snd (on_message env st msg)) =
              logged st @ [(ERROR, ErrorProcessingMessage (topic msg) AttributeError)])"
proof -
  have "decode env msg = BadTopic \<or> decode env msg = Raises AttributeError"
    using assms by (cases p) (auto simp: decode_def Let_def)
  moreover have "length (split CHR ''/'' (topic msg)) = 3 \<Longrightarrow> decode env msg \<noteq> BadTopic"
    by (simp add: decode_BadTopic)
  ultimately show ?thesis
    by (auto simp: on_message_BadTopic on_message_Raises logger_def)
qed

theorem non_map_payload_dropped_witness:
  "payload number_message = Inr (PInt 42) \<and> \<not> is_dict (PInt 42) \<and>
   length (split CHR ''/'' (topic number_message)) = 3 \<and>
   fst (on_message sample_env ready_state number_message) = Value () \<and>
   db_file (snd (on_message sample_env ready_state number_message)) = db_file ready_state \<and>
   logged (snd (on_message sample_env ready_state number_message)) =
     logged ready_state @ [(ERROR, ErrorProcessingMessage (topic number_message) AttributeError)]"
proof -
  have h1: "payload number_message = Inr (PInt 42)"
    by (simp add: number_message_def)
  have h2: "\<not> is_dict (PInt 42)"
    by simp
  have h3: "length (split CHR ''/'' (topic number_message)) = 3"
    by (simp add: number_message_def)
  show ?thesis
    using h1 h2 h3 non_map_payload_dropped [OF h1 h2, of sample_env ready_state] by simp
qed

section \<open>Facts about the store\<close>

lemma fold_max_ge: "a \<le> fold max xs (a::int)"
  by (induction xs arbitrary: a) (auto intro: order_trans [OF max.cobounded2])

lemma fold_max_ge_elem: "x \<in> set xs \<Longrightarrow> x \<le> fold max xs (a::int)"
  by (induction xs arbitrary: a) (auto intro: order_trans [OF max.cobounded1 fold_max_ge])

lemma largest_rowid_ge: "r \<in> set rows \<Longrightarrow> row_id r \<le> largest_rowid db rows"
  using fold_max_ge_elem [of "row_id r" "map row_id rows" "max 0 (sqlite_sequence db)"]
  by (simp add: largest_rowid_def)

lemma next_rowid_fresh:
  "next_rowid db rows = Some rid \<Longrightarrow> r \<in> set rows \<Longrightarrow> row_id r < rid"
  using largest_rowid_ge [of r rows db] by (auto simp: next_rowid_def split: if_splits)

lemma next_rowid_Some:
  "largest_rowid db rows < 2 ^ 63 - 1 \<Longrightarrow> next_rowid db rows = Some (largest_rowid db rows + 1)"
  by (simp add: next_rowid_def)

lemma dropped_bits_small: "n < 2 ^ 53 \<Longrightarrow> dropped_bits n = 0"
  by (subst dropped_bits.simps) simp


lemma dropped_bits_example: "dropped_bits 9007199254740993 = 1"
  by (subst dropped_bits.simps) (simp add: dropped_bits_small)

lemma double_of_int_rounds: "double_of_int 9007199254740993 = 9007199254740992"
  by (simp add: double_of_int_def Let_def dropped_bits_example)

lemma insert_reading_Inr:
  assumes "insert_reading env db [PStr n, PStr k, v, u, ts] = Inr db'"
  shows "\<exists>rows rid r v' u' ts'. sensor_readings db = Some rows \<and>
           next_rowid db rows = Some rid \<and> write_ok env \<and>
           bind_param v = Inr v' \<and> bind_param u = Inr u' \<and> bind_param ts = Inr ts' \<and>
           v' \<noteq> SqlNull \<and> u' \<noteq> SqlNull \<and> ts' \<noteq> SqlNull \<and>
           r = \<lparr>row_id = rid, sensor_name = n, sensor_type = k,
                value_col = real_affinity env v', unit_col = text_affinity env u',
                timestamp = numeric_affinity env ts', received_at = current_timestamp env\<rparr> \<and>
           db' = db\<lparr>sensor_readings := Some (rows @ [r]), sqlite_sequence := rid\<rparr>"
  using assms
  by (auto simp: insert_reading_def Let_def split: option.splits sum.splits if_splits)

lemma insert_reading_Inl:
  "bind_param v = Inl e \<Longrightarrow> \<exists>e'. insert_reading env db [PStr n, PStr k, v, u, ts] = Inl e'"
  by (auto simp: insert_reading_def split: option.splits sum.splits)

lemma decode_Candidate:
  assumes "decode env msg = Candidate n k v u ts"
  shows "\<exists>p s t d. split CHR ''/'' (topic msg) = [p, s, t] \<and> n = PStr s \<and> k = PStr t \<and>
           payload msg = Inr (PDict d) \<and> v = dict_get d ''value'' PNone \<and> v \<noteq> PNone"
proof -
  from assms have len: "length (split CHR ''/'' (topic msg)) = 3"
    using decode_BadTopic [of env msg] by auto
  then obtain p s t where parts: "split CHR ''/'' (topic msg) = [p, s, t]"
    by (auto simp: length_Suc_conv numeral_3_eq_3)
  with assms show ?thesis
    by (auto simp: decode_def Let_def split: sum.splits pyval.splits if_splits)
qed

lemma split_sensors_topic:
  assumes "CHR ''/'' \<notin> set S" and "CHR ''/'' \<notin> set K"
  shows "split CHR ''/'' (''sensors/'' @ S @ ''/'' @ K) = [''sensors'', S, K]"
proof -
  have "split CHR ''/'' (''sensors'' @ CHR ''/'' # (S @ CHR ''/'' # K)) =
        ''sensors'' # split CHR ''/'' (S @ CHR ''/'' # K)"
    by (rule split_at_separator) simp
  also have "split CHR ''/'' (S @ CHR ''/'' # K) = S # split CHR ''/'' K"
    using assms(1) by (rule split_at_separator)
  also have "split CHR ''/'' K = [K]"
    using assms(2) by (rule split_no_separator)
  finally show ?thesis by simp
qed

lemma create_index_present:
  "name \<in> fst ` set (indexes db) \<Longrightarrow> create_index name col db = Inr db"
  by (simp add: create_index_def)

lemma create_index_absent:
  "name \<notin> fst ` set (indexes db) \<Longrightarrow> sensor_readings db = Some rows \<Longrightarrow>
   create_index name col db = Inr (db\<lparr>indexes := indexes db @ [(name, ''sensor_readings'', col)]\<rparr>)"
  by (simp add: create_index_def)

lemma create_index_Some:
  assumes "sensor_readings db = Some rows"
  shows "\<exists>db'. create_index name col db = Inr db' \<and> sensor_readings db' = Some rows \<and>
           sqlite_sequence db' = sqlite_sequence db \<and>
           fst ` set (indexes db') = insert name (fst ` set (indexes db))"
proof (cases "name \<in> fst ` set (indexes db)")
  case True
  then show ?thesis using assms by (auto simp: create_index_present)
next
  case False
  then show ?thesis using assms by (simp add: create_index_absent [OF False assms])
qed

lemma create_table_Some:
  "sensor_readings (create_table db) =
     Some (case sensor_readings db of None \<Rightarrow> [] | Some rows \<Rightarrow> rows) \<and>
   indexes (create_table db) = indexes db \<and>
   sqlite_sequence (create_table db) = sqlite_sequence db"
  by (simp add: create_table_def split: option.splits)

lemma create_table_present: "sensor_readings db = Some rows \<Longrightarrow> create_table db = db"
  by (simp add: create_table_def)

lemma init_database_ok:
  assumes "connect_ok env"
  shows "\<exists>db'. init_database env st =
           (True, logger INFO DatabaseInitialized
                    (st\<lparr>db_connection := Some Connection, db_file := db'\<rparr>)) \<and>
           sensor_readings db' =
             Some (case sensor_readings (db_file st) of None \<Rightarrow> [] | Some rows \<Rightarrow> rows) \<and>
           sqlite_sequence db' = sqlite_sequence (db_file st) \<and>
           fst ` set (indexes db') =
             {''idx_timestamp'', ''idx_sensor_name''} \<union> fst ` set (indexes (db_file st))"
proof -
  let ?rows = "case sensor_readings (db_file st) of None \<Rightarrow> [] | Some rows \<Rightarrow> rows"
  let ?db1 = "create_table (db_file st)"
  have t: "sensor_readings ?db1 = Some ?rows" by (simp add: create_table_Some)
  from create_index_Some [OF t, of "''idx_timestamp''" "''timestamp''"] obtain db2
    where db2: "create_index ''idx_timestamp'' ''timestamp'' ?db1 = Inr db2"
      "sensor_readings db2 = Some ?rows" "sqlite_sequence db2 = sqlite_sequence ?db1"
      "fst ` set (indexes db2) = insert ''idx_timestamp'' (fst ` set (indexes ?db1))"
    by blast
  from create_index_Some [OF db2(2), of "''idx_sensor_name''" "''sensor_name''"] obtain db3
    where db3: "create_index ''idx_sensor_name'' ''sensor_name'' db2 = Inr db3"
      "sensor_readings db3 = Some ?rows" "sqlite_sequence db3 = sqlite_sequence db2"
      "fst ` set (indexes db3) = insert ''idx_sensor_name'' (fst ` set (indexes db2))"
    by blast
  have "init_database env st =
      (True, logger INFO DatabaseInitialized
               (st\<lparr>db_connection := Some Connection, db_file := db3\<rparr>))"
    using assms db2(1) db3(1) by (simp add: init_database_def)
  moreover have "fst ` set (indexes db3) =
      {''idx_timestamp'', ''idx_sensor_name''} \<union> fst ` set (indexes (db_file st))"
    unfolding db3(4) db2(4) by (simp add: create_table_Some insert_commute)
  ultimately show ?thesis
    using db3(2,3) db2(3) by (intro exI [of _ db3]) (simp add: create_table_Some)
qed

lemma init_database_again:
  assumes "connect_ok env" and "sensor_readings (db_file st) = Some rows"
    and "''idx_timestamp'' \<in> fst ` set (indexes (db_file st))"
    and "''idx_sensor_name'' \<in> fst ` set (indexes (db_file st))"
  shows "init_database env st =
           (True, logger INFO DatabaseInitialized (st\<lparr>db_connection := Some Connection\<rparr>))"
  using assms
  by (simp add: init_database_def create_table_present create_index_present)

subsection \<open>C1: a well-formed message is stored\<close>

text \<open>
  C1, as the code has it: for a topic \<^verbatim>\<open>sensors/S/K\<close> and a payload that is a map whose
  \<^verbatim>\<open>value\<close> is a float other than NaN or an integer of 64 bits, whose \<^verbatim>\<open>unit\<close> is
  absent or a string with a UTF-8 encoding and whose \<^verbatim>\<open>timestamp\<close> is absent or such
  a string, with the connection open, the table present, its rowids not used up and
  the storage taking the write, the handler returns and the table has exactly one row
  more, at its end, with a new rowid, the sensor name \<open>S\<close>, the kind \<open>K\<close>, the payload's
  value (an integer as the double nearest to it) and the payload's unit (the empty
  string when absent); the rows already there and the indexes are as they were.
\<close>

theorem numeric_reading_stored:
  assumes topic: "topic msg = ''sensors/'' @ S @ ''/'' @ K"
    and S: "CHR ''/'' \<notin> set S" and K: "CHR ''/'' \<notin> set K"
    and payload: "payload msg = Inr (PDict d)"
    and val: "map_of d ''value'' = Some v" "stored_value v = Some x"
    and unit: "map_of d ''unit'' = None \<and> u = [] \<or> map_of d ''unit'' = Some (PStr u)"
    and ts: "map_of d ''timestamp'' = None \<or> (\<exists>t. map_of d ''timestamp'' = Some (PStr t))"
    and conn: "db_connection st = Some c"
    and rows: "sensor_readings (db_file st) = Some rows"
    and rowids: "largest_rowid (db_file st) rows < 2 ^ 63 - 1"
    and storage: "write_ok env"
  shows "\<exists>r. fst (on_message env st msg) = Value () \<and>
           db_file (snd (on_message env st msg)) =
             (db_file st)\<lparr>sensor_readings := Some (rows @ [r]), sqlite_sequence := row_id r\<rparr> \<and>
           sensor_name r = S \<and> sensor_type r = K \<and> value_col r = x \<and>
           unit_col r = u \<and> (\<forall>r' \<in> set rows. row_id r' < row_id r)"
proof -
  have parts: "split CHR ''/'' (topic msg) = [''sensors'', S, K]"
    using split_sensors_topic [OF S K] topic by simp
  obtain tv where tv: "dict_get d ''timestamp'' (PStr (now env)) = PStr tv"
    using ts by (auto simp: dict_get_def)
  have uv: "dict_get d ''unit'' (PStr []) = PStr u"
    using unit by (auto simp: dict_get_def)
  have vv: "dict_get d ''value'' PNone = v"
    using val by (simp add: dict_get_def)
  have "v \<noteq> PNone \<and> (\<exists>b. bind_param v = Inr b \<and> b \<noteq> SqlNull \<and> real_affinity env b = x)"
    using val(2) by (cases v rule: stored_value.cases) (auto split: if_splits)
  then obtain b where vnn: "v \<noteq> PNone"
    and b: "bind_param v = Inr b" "b \<noteq> SqlNull" "real_affinity env b = x"
    by blast
  have dec: "decode env msg = Candidate (PStr S) (PStr K) v (PStr u) (PStr tv)"
    using parts payload tv uv vv vnn by (simp add: decode_def)
  define rid where "rid = largest_rowid (db_file st) rows + 1"
  have nxt: "next_rowid (db_file st) rows = Some rid"
    unfolding rid_def using rowids by (rule next_rowid_Some)
  define r where "r = \<lparr>row_id = rid, sensor_name = S, sensor_type = K,
      value_col = x, unit_col = u, timestamp = numeric_affinity env (SqlText tv),
      received_at = current_timestamp env\<rparr>"
  have ins: "insert_reading env (db_file st) [PStr S, PStr K, v, PStr u, PStr tv] =
      Inr ((db_file st)\<lparr>sensor_readings := Some (rows @ [r]), sqlite_sequence := row_id r\<rparr>)"
    using b rows nxt storage by (simp add: insert_reading_def r_def)
  have "db_file (snd (on_message env st msg)) =
      (db_file st)\<lparr>sensor_readings := Some (rows @ [r]), sqlite_sequence := row_id r\<rparr>"
    using dec ins conn by (simp add: db_file_on_message)
  moreover have "\<forall>r' \<in> set rows. row_id r' < row_id r"
    using next_rowid_fresh [OF nxt] by (simp add: r_def)
  ultimately show ?thesis
    by (intro exI [of _ r]) (simp add: on_message_returns r_def)
qed

theorem numeric_reading_stored_witness:
  "topic good_message = ''sensors/'' @ ''deskA'' @ ''/'' @ ''temperature'' \<and>
   CHR ''/'' \<notin> set ''deskA'' \<and> CHR ''/'' \<notin> set ''temperature'' \<and>
   payload good_message =
     Inr (PDict [(''value'', PFloat (Finite 21.5)), (''unit'', PStr ''C''),
                 (''timestamp'', PStr ''2024-01-01T00:00:00'')]) \<and>
   stored_value (PFloat (Finite 21.5)) = Some (SqlReal 21.5) \<and>
   db_connection ready_state = Some Connection \<and>
   sensor_readings (db_file ready_state) = Some [] \<and>
   largest_rowid (db_file ready_state) [] < 2 ^ 63 - 1 \<and>
   write_ok sample_env \<and>
   (\<exists>r. fst (on_message sample_env ready_state good_message) = Value () \<and>
      db_file (snd (on_message sample_env ready_state good_message)) =
        (db_file ready_state)\<lparr>sensor_readings := Some ([] @ [r]), sqlite_sequence := row_id r\<rparr> \<and>
      sensor_name r = ''deskA'' \<and> sensor_type r = ''temperature'' \<and>
      value_col r = SqlReal 21.5 \<and> unit_col r = ''C'' \<and>
      (\<forall>r' \<in> set ([]::row list). row_id r' < row_id r))"
proof -
  let ?d = "[(''value'', PFloat (Finite 21.5)), (''unit'', PStr ''C''),
             (''timestamp'', PStr ''2024-01-01T00:00:00'')]"
  have h1: "topic good_message = ''sensors/'' @ ''deskA'' @ ''/'' @ ''temperature''"
    by (simp add: good_message_def)
  have h2: "CHR ''/'' \<notin> set ''deskA''" by simp
  have h3: "CHR ''/'' \<notin> set ''temperature''" by simp
  have h4: "payload good_message = Inr (PDict ?d)"
    by (simp add: good_message_def)
  have h5: "map_of ?d ''value'' = Some (PFloat (Finite 21.5))" by simp
  have h6: "stored_value (PFloat (Finite 21.5)) = Some (SqlReal 21.5)" by simp
  have h7: "map_of ?d ''unit'' = None \<and> ''C'' = [] \<or> map_of ?d ''unit'' = Some (PStr ''C'')"
    by simp
  have h8: "map_of ?d ''timestamp'' = None \<or> (\<exists>t. map_of ?d ''timestamp'' = Some (PStr t))"
    by simp
  have h9: "db_connection ready_state = Some Connection"
    by (simp add: ready_state_def)
  have h10: "sensor_readings (db_file ready_state) = Some []"
    by (simp add: ready_state_def)
  have h11: "largest_rowid (db_file ready_state) [] < 2 ^ 63 - 1"
    by (simp add: largest_rowid_def ready_state_def)
  have h12: "write_ok sample_env"
    by (simp add: sample_env_def)
  note c = numeric_reading_stored [OF h1 h2 h3 h4 h5 h6 h7 h8 h9 h10 h11 h12]
  show ?thesis
    using h1 h2 h3 h4 h6 h9 h10 h11 h12 c by (intro conjI) assumption+
qed

text \<open>
  C1 as stated fails: the payload \<^verbatim>\<open>{"value": 21.5, "unit": null}\<close> is a map with a
  numeric value, and on the topic \<^verbatim>\<open>sensors/deskA/temperature\<close> nothing is stored,
  because the column \<^verbatim>\<open>unit\<close> is NOT NULL.
\<close>

theorem null_unit_not_stored:
  "topic null_unit_message = ''sensors/'' @ ''deskA'' @ ''/'' @ ''temperature'' \<and>
   payload null_unit_message =
     Inr (PDict [(''value'', PFloat (Finite 21.5)), (''unit'', PNone)]) \<and>
   db_connection ready_state = Some Connection \<and>
   sensor_readings (db_file ready_state) = Some [] \<and>
   db_file (snd (on_message sample_env ready_state null_unit_message)) = db_file ready_state"
  by (simp add: on_message_def on_message_try_def decode_def logger_def ready_state_def
        null_unit_message_def sample_env_def dict_get_def store_reading_def
        insert_reading_def next_rowid_def largest_rowid_def)

subsection \<open>C4: a payload without a numeric value\<close>

lemma value_that_cannot_be_bound:
  assumes "payload msg = Inr (PDict d)"
    and "dict_get d ''value'' PNone = v"
    and "v = PNone \<or> is_list v \<or> is_dict v"
  shows "fst (on_message env st msg) = Value () \<and>
         db_file (snd (on_message env st msg)) = db_file st"
proof (cases "decode env msg")
  case (Candidate n k v' u ts)
  from decode_Candidate [OF this] assms obtain s t
    where nk: "n = PStr s" "k = PStr t" and v': "v' = v" "v \<noteq> PNone"
    by auto
  with assms(3) have "bind_param v = Inl ProgrammingError"
    by (cases v) auto
  from insert_reading_Inl [OF this] obtain e'
    where "insert_reading env (db_file st) [PStr s, PStr t, v, u, ts] = Inl e'" by blast
  with Candidate nk v' show ?thesis
    by (simp add: on_message_returns db_file_on_message split: option.splits)
qed (simp_all add: on_message_returns db_file_on_message)

text \<open>
  C4 fails on the code. The handler tests \<^verbatim>\<open>value is None\<close> only, so a message whose
  \<^verbatim>\<open>value\<close> is absent, null, an array or a map stores nothing (the lemma above), but
  one whose \<^verbatim>\<open>value\<close> is a string is not refused: on the topic
  \<^verbatim>\<open>sensors/deskB/humidity\<close> the payload \<^verbatim>\<open>{"value": "abc"}\<close> is stored and
  committed, the value being the text, and only then the format \<^verbatim>\<open>{value:6.1f}\<close> of
  the handler's own log line raises, so that the handler logs an error for a message
  it has stored.
\<close>

theorem text_value_stored:
  "payload text_value_message = Inr (PDict [(''value'', PStr ''abc'')]) \<and>
   sensor_readings (db_file ready_state) = Some [] \<and>
   sensor_readings (db_file (snd (on_message sample_env ready_state text_value_message))) =
     Some [\<lparr>row_id = 1, sensor_name = ''deskB'', sensor_type = ''humidity'',
            value_col = SqlText ''abc'', unit_col = [],
            timestamp = SqlText ''2024-01-01T00:10:00.000000'',
            received_at = ''2024-01-01 00:10:00''\<rparr>] \<and>
   logged (snd (on_message sample_env ready_state text_value_message)) =
     [(ERROR, ErrorProcessingMessage ''sensors/deskB/humidity'' ValueError)]"
  by (simp add: on_message_def on_message_try_def decode_def logger_def ready_state_def
        text_value_message_def sample_env_def dict_get_def store_reading_def
        insert_reading_def next_rowid_def largest_rowid_def)

subsection \<open>C7: the segments of the topic\<close>

text \<open>
  C7, as the code has it: a message whose topic does not split into exactly three
  segments is rejected with a warning and the database is as it was; and whenever the
  handler changes the database, the topic has exactly three segments, empty or not, and
  one row has been appended whose sensor name is the second segment and whose kind is
  the third.
\<close>

theorem segments_decide:
  "(length (split CHR ''/'' (topic msg)) \<noteq> 3 \<longrightarrow>
      db_file (snd (on_message env st msg)) = db_file st \<and>
      logged (snd (on_message env st msg)) =
        logged st @ [(WARNING, UnexpectedTopicFormat (topic msg))]) \<and>
   (db_file (snd (on_message env st msg)) \<noteq> db_file st \<longrightarrow>
      (\<exists>p rows r. split CHR ''/'' (topic msg) = [p, sensor_name r, sensor_type r] \<and>
         sensor_readings (db_file st) = Some rows \<and>
         sensor_readings (db_file (snd (on_message env st msg))) = Some (rows @ [r])))"
proof (intro conjI impI)
  assume "length (split CHR ''/'' (topic msg)) \<noteq> 3"
  then have "decode env msg = BadTopic" by (simp add: decode_BadTopic)
  then show "db_file (snd (on_message env st msg)) = db_file st"
    and "logged (snd (on_message env st msg)) =
        logged st @ [(WARNING, UnexpectedTopicFormat (topic msg))]"
    by (simp_all add: on_message_BadTopic logger_def)
next
  assume changed: "db_file (snd (on_message env st msg)) \<noteq> db_file st"
  then obtain n k v u ts where cand: "decode env msg = Candidate n k v u ts"
    by (cases "decode env msg") (auto simp: db_file_on_message)
  from decode_Candidate [OF cand] obtain p s t
    where parts: "split CHR ''/'' (topic msg) = [p, s, t]" and nk: "n = PStr s" "k = PStr t"
    by blast
  from changed cand nk obtain db'
    where ins: "insert_reading env (db_file st) [PStr s, PStr t, v, u, ts] = Inr db'"
      and db': "db_file (snd (on_message env st msg)) = db'"
    by (auto simp: db_file_on_message split: option.splits sum.splits)
  from insert_reading_Inr [OF ins] db' parts
  show "\<exists>p rows r. split CHR ''/'' (topic msg) = [p, sensor_name r, sensor_type r] \<and>
         sensor_readings (db_file st) = Some rows \<and>
         sensor_readings (db_file (snd (on_message env st msg))) = Some (rows @ [r])"
    by force
qed

theorem segments_decide_witness:
  "length (split CHR ''/'' ''a/b/c/d'') \<noteq> 3 \<and>
   db_file (snd (on_message sample_env ready_state
                   \<lparr>topic = ''a/b/c/d'', payload = Inl JSONDecodeError\<rparr>)) =
     db_file ready_state \<and>
   db_file (snd (on_message sample_env ready_state no_unit_message)) \<noteq> db_file ready_state \<and>
   (\<exists>p rows r. split CHR ''/'' (topic no_unit_message) = [p, sensor_name r, sensor_type r] \<and>
      sensor_readings (db_file ready_state) = Some rows \<and>
      sensor_readings (db_file (snd (on_message sample_env ready_state no_unit_message))) =
        Some (rows @ [r]))"
proof -
  let ?m = "\<lparr>topic = ''a/b/c/d'', payload = Inl JSONDecodeError\<rparr>"
  have h1: "length (split CHR ''/'' (topic ?m)) \<noteq> 3"
    by simp
  have h2: "db_file (snd (on_message sample_env ready_state no_unit_message)) \<noteq>
            db_file ready_state"
    by (simp add: on_message_def on_message_try_def decode_def logger_def ready_state_def
          no_unit_message_def sample_env_def dict_get_def store_reading_def
          insert_reading_def next_rowid_def largest_rowid_def)
  note a = segments_decide [where msg = ?m and env = sample_env and st = ready_state,
      THEN conjunct1, rule_format, OF h1, THEN conjunct1]
  note b = segments_decide [where msg = no_unit_message and env = sample_env
      and st = ready_state, THEN conjunct2, rule_format, OF h2]
  show ?thesis
    using h1 h2 a b by (intro conjI) simp_all
qed

text \<open>
  C7 as stated fails: the topic \<^verbatim>\<open>sensors//temperature\<close> has an empty second segment,
  the message is not rejected, and the row stored has an empty sensor name.
\<close>

theorem empty_sensor_name_stored:
  "split CHR ''/'' (topic empty_name_message) = [''sensors'', [], ''temperature''] \<and>
   sensor_readings (db_file ready_state) = Some [] \<and>
   sensor_readings (db_file (snd (on_message sample_env ready_state empty_name_message))) =
     Some [\<lparr>row_id = 1, sensor_name = [], sensor_type = ''temperature'',
            value_col = SqlReal 21.5, unit_col = [],
            timestamp = SqlText ''2024-01-01T00:10:00.000000'',
            received_at = ''2024-01-01 00:10:00''\<rparr>]"
  by (simp add: on_message_def on_message_try_def decode_def logger_def ready_state_def
        empty_name_message_def sample_env_def dict_get_def store_reading_def
        insert_reading_def next_rowid_def largest_rowid_def)

subsection \<open>C8: init_database twice\<close>

text \<open>
  C8: when the connection can be opened, \<^verbatim>\<open>init_database\<close> succeeds, a second call
  succeeds too and leaves the database file exactly as the first call left it; after
  the first call the table exists with the rows it had before (none when it did not
  exist), both indexes exist, and the AUTOINCREMENT counter is as it was.
\<close>

theorem init_database_idempotent:
  assumes "connect_ok env" and "connect_ok env'"
  shows "fst (init_database env st) \<and>
         fst (init_database env' (snd (init_database env st))) \<and>
         db_file (snd (init_database env' (snd (init_database env st)))) =
           db_file (snd (init_database env st)) \<and>
         sensor_readings (db_file (snd (init_database env st))) =
           Some (case sensor_readings (db_file st) of None \<Rightarrow> [] | Some rows \<Rightarrow> rows) \<and>
         ''idx_timestamp'' \<in> fst ` set (indexes (db_file (snd (init_database env st)))) \<and>
         ''idx_sensor_name'' \<in> fst ` set (indexes (db_file (snd (init_database env st)))) \<and>
         sqlite_sequence (db_file (snd (init_database env st))) = sqlite_sequence (db_file st)"
proof -
  from init_database_ok [OF assms(1), of st] obtain db'
    where first: "init_database env st =
           (True, logger INFO DatabaseInitialized
                    (st\<lparr>db_connection := Some Connection, db_file := db'\<rparr>))"
      and tab: "sensor_readings db' =
             Some (case sensor_readings (db_file st) of None \<Rightarrow> [] | Some rows \<Rightarrow> rows)"
      and seq: "sqlite_sequence db' = sqlite_sequence (db_file st)"
      and idx: "fst ` set (indexes db') =
             {''idx_timestamp'', ''idx_sensor_name''} \<union> fst ` set (indexes (db_file st))"
    by blast
  let ?st1 = "snd (init_database env st)"
  have db1: "db_file ?st1 = db'" using first by simp
  have "init_database env' ?st1 =
      (True, logger INFO DatabaseInitialized (?st1\<lparr>db_connection := Some Connection\<rparr>))"
    by (rule init_database_again [OF assms(2)]) (simp_all add: db1 tab idx)
  then show ?thesis using first tab seq idx by simp
qed

theorem init_database_idempotent_witness:
  "connect_ok sample_env \<and>
   (fst (init_database sample_env populated_state) \<and>
    fst (init_database sample_env (snd (init_database sample_env populated_state))) \<and>
    db_file (snd (init_database sample_env (snd (init_database sample_env populated_state)))) =
      db_file (snd (init_database sample_env populated_state)) \<and>
    sensor_readings (db_file (snd (init_database sample_env populated_state))) =
      Some (case sensor_readings (db_file populated_state) of None \<Rightarrow> [] | Some rows \<Rightarrow> rows) \<and>
    ''idx_timestamp'' \<in> fst ` set (indexes (db_file (snd (init_database sample_env populated_state)))) \<and>
    ''idx_sensor_name'' \<in> fst ` set (indexes (db_file (snd (init_database sample_env populated_state)))) \<and>
    sqlite_sequence (db_file (snd (init_database sample_env populated_state))) =
      sqlite_sequence (db_file populated_state))"
proof -
  have h: "connect_ok sample_env"
    by (simp add: sample_env_def)
  show ?thesis
    using h init_database_idempotent [OF h h, of populated_state] by (rule conjI)
qed

section \<open>Facts about the queries\<close>

lemma sql_le_refl: "sql_le a a"
  by (simp add: sql_le_def)

lemma sql_le_trans: "sql_le a b \<Longrightarrow> sql_le b c \<Longrightarrow> sql_le a c"
  unfolding sql_le_def by (rule order_trans)

lemma sql_le_total: "sql_le a b \<or> sql_le b a"
  unfolding sql_le_def by (rule linear)

lemma sql_lt_not_le: "sql_lt a b = (\<not> sql_le b a)"
  unfolding sql_lt_def sql_le_def by (rule less_le_not_le [THEN trans]) (use linear in blast)

lemma sql_le_antisym: "sql_le a b \<Longrightarrow> sql_le b a \<Longrightarrow> sql_key a = sql_key b"
  unfolding sql_le_def by (rule antisym)

lemma sql_le_Null: "sql_le SqlNull x"
  by (cases x) (simp_all add: sql_le_def sql_key_def)

lemma sql_max_cases: "sql_max a b = a \<or> sql_max a b = b"
  by (simp add: sql_max_def)

lemma sql_max_ge: "sql_le a (sql_max a b)" "sql_le b (sql_max a b)"
  using sql_le_total [of a b] by (auto simp: sql_max_def sql_lt_not_le sql_le_refl)



lemma fold_sql_max_mem: "fold (\<lambda>x acc. sql_max acc x) ws w \<in> set (w # ws)"
proof (induction ws arbitrary: w)
  case Nil
  show ?case by simp
next
  case (Cons a ws)
  from Cons.IH [of "sql_max w a"] sql_max_cases [of w a] show ?case by auto
qed

lemma fold_sql_max_ge_init: "sql_le w (fold (\<lambda>x acc. sql_max acc x) ws w)"
proof (induction ws arbitrary: w)
  case Nil
  show ?case by (simp add: sql_le_refl)
next
  case (Cons a ws)
  from sql_le_trans [OF sql_max_ge(1) Cons.IH [of "sql_max w a"]] show ?case by simp
qed

lemma fold_sql_max_ge: "v \<in> set ws \<Longrightarrow> sql_le v (fold (\<lambda>x acc. sql_max acc x) ws w)"
proof (induction ws arbitrary: w)
  case Nil
  then show ?case by simp
next
  case (Cons a ws)
  show ?case
  proof (cases "v = a")
    case True
    from sql_le_trans [OF sql_max_ge(2) fold_sql_max_ge_init [of "sql_max w a" ws]] True
    show ?thesis by simp
  next
    case False
    with Cons.prems have "v \<in> set ws" by simp
    from Cons.IH [OF this, of "sql_max w a"] show ?thesis by simp
  qed
qed




lemma agg_max_ge: "v \<in> set vs \<Longrightarrow> sql_le v (agg_max vs)"
proof (cases "v = SqlNull")
  case True
  then show ?thesis by (simp add: sql_le_Null)
next
  case False
  assume "v \<in> set vs"
  with False have mem: "v \<in> set (filter (\<lambda>v. v \<noteq> SqlNull) vs)" by simp
  then obtain w ws where eq: "filter (\<lambda>v. v \<noteq> SqlNull) vs = w # ws"
    by (cases "filter (\<lambda>v. v \<noteq> SqlNull) vs") auto
  with mem have "v = w \<or> v \<in> set ws" by simp
  then have "sql_le v (fold (\<lambda>x acc. sql_max acc x) ws w)"
    using fold_sql_max_ge_init [of w ws] fold_sql_max_ge [of v ws w] by blast
  then show ?thesis by (simp add: agg_max_def eq)
qed

lemma agg_max_mem:
  assumes "v \<in> set vs" and "v \<noteq> SqlNull"
  shows "agg_max vs \<in> set vs \<and> agg_max vs \<noteq> SqlNull"
proof -
  from assms have mem: "v \<in> set (filter (\<lambda>v. v \<noteq> SqlNull) vs)" by simp
  then obtain w ws where eq: "filter (\<lambda>v. v \<noteq> SqlNull) vs = w # ws"
    by (cases "filter (\<lambda>v. v \<noteq> SqlNull) vs") auto
  have "fold (\<lambda>x acc. sql_max acc x) ws w \<in> set (w # ws)"
    by (rule fold_sql_max_mem)
  also have "set (w # ws) = set (filter (\<lambda>v. v \<noteq> SqlNull) vs)"
    by (simp only: eq)
  finally have "fold (\<lambda>x acc. sql_max acc x) ws w \<in> {x \<in> set vs. x \<noteq> SqlNull}"
    by simp
  then show ?thesis by (simp add: agg_max_def eq)
qed



lemma same_result_refl: "same_result x x"
  by (cases x rule: prod_cases5) (simp add: sql_is_def)

lemma same_result_sym: "same_result x y \<Longrightarrow> same_result y x"
  by (cases x rule: prod_cases5; cases y rule: prod_cases5) (simp add: sql_is_def)

lemma set_distinct_rows: "set (distinct_rows xs) \<subseteq> set xs"
proof (induction xs rule: distinct_rows.induct)
  case 1
  show ?case by simp
next
  case (2 a xs)
  then show ?case by (simp add: subset_iff)
qed

lemma distinct_rows_once:
  "x \<in> set (distinct_rows xs) \<Longrightarrow> filter (same_result x) (distinct_rows xs) = [x]"
proof (induction xs rule: distinct_rows.induct)
  case 1
  then show ?case by simp
next
  case (2 a xs)
  define D where "D = distinct_rows (filter (\<lambda>y. \<not> same_result a y) xs)"
  have unfold: "distinct_rows (a # xs) = a # D"
    by (simp only: D_def distinct_rows.simps)
  have sub: "set D \<subseteq> set (filter (\<lambda>y. \<not> same_result a y) xs)"
    unfolding D_def by (rule set_distinct_rows)
  have away: "\<not> same_result a y" if "y \<in> set D" for y
  proof -
    from sub that have "y \<in> set (filter (\<lambda>y. \<not> same_result a y) xs)"
      by (rule subsetD)
    then show ?thesis unfolding set_filter by blast
  qed
  show ?case
  proof (cases "x = a")
    case True
    have "filter (same_result a) D = []"
      using away by (simp only: filter_empty_conv) blast
    with True show ?thesis
      by (simp only: unfold filter.simps same_result_refl if_True)
  next
    case False
    with "2.prems" have mem: "x \<in> set D"
      by (simp only: unfold set_simps insert_iff) blast
    with away have "\<not> same_result x a" using same_result_sym by blast
    moreover have "filter (same_result x) D = [x]"
      using "2.IH" mem unfolding D_def by blast
    ultimately show ?thesis
      by (simp only: unfold filter.simps if_False)
  qed
qed

lemma distinct_rows_covers:
  "x \<in> set xs \<Longrightarrow> \<exists>y \<in> set (distinct_rows xs). same_result y x"
proof (induction xs rule: distinct_rows.induct)
  case 1
  then show ?case by simp
next
  case (2 a xs)
  show ?case
  proof (cases "same_result a x")
    case True
    then show ?thesis by auto
  next
    case False
    with "2.prems" same_result_refl [of a] have "x \<in> set (filter (\<lambda>y. \<not> same_result a y) xs)"
      by auto
    from "2.IH" [OF this] show ?thesis by auto
  qed
qed

lemma in_subquery_iff:
  assumes "r \<in> set rows"
  shows "in_subquery (latest_subquery rows) r =
         sql_eq (timestamp r)
           (agg_max (map timestamp (filter (\<lambda>r'. sensor_name r' = sensor_name r) rows)))"
  using imageI [OF assms, of sensor_name]
  by (simp add: in_subquery_def latest_subquery_def list_ex_iff)

lemma in_subquery_latest:
  assumes "r \<in> set rows"
  shows "in_subquery (latest_subquery rows) r = latest_of_sensor rows r"
proof -
  let ?M = "map timestamp (filter (\<lambda>r'. sensor_name r' = sensor_name r) rows)"
  have mem: "timestamp r \<in> set ?M" using assms by simp
  show ?thesis
  proof
    assume "in_subquery (latest_subquery rows) r"
    then have eq: "sql_eq (timestamp r) (agg_max ?M)"
      by (simp add: in_subquery_iff [OF assms])
    then have key: "sql_key (agg_max ?M) = sql_key (timestamp r)" and nn: "timestamp r \<noteq> SqlNull"
      by (simp_all add: sql_eq_def)
    have "sql_le (timestamp r') (timestamp r)"
      if "r' \<in> set rows" "sensor_name r' = sensor_name r" for r'
    proof -
      from that have "timestamp r' \<in> set ?M" by simp
      from agg_max_ge [OF this] key show ?thesis by (simp add: sql_le_def)
    qed
    with nn show "latest_of_sensor rows r" by (simp add: latest_of_sensor_def)
  next
    assume l: "latest_of_sensor rows r"
    then have nn: "timestamp r \<noteq> SqlNull" by (simp add: latest_of_sensor_def)
    from agg_max_mem [OF mem nn] have inM: "agg_max ?M \<in> set ?M" and mn: "agg_max ?M \<noteq> SqlNull"
      by simp_all
    from inM obtain r' where "r' \<in> set rows" "sensor_name r' = sensor_name r"
      "agg_max ?M = timestamp r'" by auto
    with l have "sql_le (agg_max ?M) (timestamp r)" by (simp add: latest_of_sensor_def)
    from sql_le_antisym [OF agg_max_ge [OF mem] this] nn mn
    have "sql_eq (timestamp r) (agg_max ?M)" by (simp add: sql_eq_def)
    then show "in_subquery (latest_subquery rows) r"
      by (simp add: in_subquery_iff [OF assms])
  qed
qed

lemma select_latest_sorted: "sorted (map order_key (select_latest rows))"
  by (simp add: select_latest_def)

lemma select_latest_sound:
  assumes "x \<in> set (select_latest rows)"
  shows "\<exists>r \<in> set rows. x = selected r \<and> latest_of_sensor rows r"
proof -
  from assms
  have "x \<in> set (distinct_rows (map selected (filter (in_subquery (latest_subquery rows)) rows)))"
    by (simp add: select_latest_def)
  then have "x \<in> set (map selected (filter (in_subquery (latest_subquery rows)) rows))"
    by (rule set_distinct_rows [THEN subsetD])
  then obtain r where "r \<in> set rows" "in_subquery (latest_subquery rows) r" "x = selected r"
    by auto
  then show ?thesis using in_subquery_latest by blast
qed

lemma select_latest_complete:
  assumes "r \<in> set rows" and "latest_of_sensor rows r"
  shows "\<exists>x \<in> set (select_latest rows). same_result x (selected r)"
proof -
  from assms have "selected r \<in> set (map selected (filter (in_subquery (latest_subquery rows)) rows))"
    by (simp add: in_subquery_latest)
  from distinct_rows_covers [OF this] show ?thesis by (simp add: select_latest_def)
qed

lemma select_latest_once:
  assumes "x \<in> set (select_latest rows)"
  shows "filter (same_result x) (select_latest rows) = [x]"
proof -
  let ?D = "distinct_rows (map selected (filter (in_subquery (latest_subquery rows)) rows))"
  from assms have "x \<in> set ?D" by (simp add: select_latest_def)
  from distinct_rows_once [OF this] show ?thesis
    by (simp add: select_latest_def filter_sort)
qed









subsection \<open>C2: get_latest_readings\<close>

text \<open>
  C2, as the code has it: with the connection open and the table present, the query
  returns a list ordered by sensor name, then kind; every row returned is the selection
  of a stored row whose timestamp is the greatest among all stored rows of the same
  sensor name, of whatever kind (and so the greatest among the rows of its own pair);
  every such stored row is returned, up to equality of the five selected columns; and no
  two rows returned are equal in the five columns. The subquery groups by
  \<^verbatim>\<open>sensor_name\<close> alone and the id takes no part, so a pair can come with several rows
  and a pair whose rows are all older than the sensor's latest row does not come at all.
\<close>

theorem latest_readings_characterised:
  assumes "db_connection st = Some c" and "sensor_readings (db_file st) = Some rows"
  shows "\<exists>res. get_latest_readings st = (Some res, st) \<and>
           sorted (map order_key res) \<and>
           (\<forall>x \<in> set res. \<exists>r \<in> set rows. x = selected r \<and> latest_of_sensor rows r) \<and>
           (\<forall>r \<in> set rows. latest_of_sensor rows r \<longrightarrow>
              (\<exists>x \<in> set res. same_result x (selected r))) \<and>
           (\<forall>x \<in> set res. filter (same_result x) res = [x])"
proof (intro exI conjI ballI impI)
  show "get_latest_readings st = (Some (select_latest rows), st)"
    using assms by (simp add: get_latest_readings_def)
  show "sorted (map order_key (select_latest rows))"
    by (rule select_latest_sorted)
  show "\<exists>r \<in> set rows. x = selected r \<and> latest_of_sensor rows r"
    if "x \<in> set (select_latest rows)" for x
    using that by (rule select_latest_sound)
  show "\<exists>x \<in> set (select_latest rows). same_result x (selected r)"
    if "r \<in> set rows" "latest_of_sensor rows r" for r
    using that by (rule select_latest_complete)
  show "filter (same_result x) (select_latest rows) = [x]"
    if "x \<in> set (select_latest rows)" for x
    using that by (rule select_latest_once)
qed

theorem latest_readings_characterised_witness:
  "db_connection (state_with scenario_rows) = Some Connection \<and>
   sensor_readings (db_file (state_with scenario_rows)) = Some scenario_rows \<and>
   (\<exists>res. get_latest_readings (state_with scenario_rows) = (Some res, state_with scenario_rows) \<and>
      sorted (map order_key res) \<and>
      (\<forall>x \<in> set res. \<exists>r \<in> set scenario_rows. x = selected r \<and> latest_of_sensor scenario_rows r) \<and>
      (\<forall>r \<in> set scenario_rows. latest_of_sensor scenario_rows r \<longrightarrow>
         (\<exists>x \<in> set res. same_result x (selected r))) \<and>
      (\<forall>x \<in> set res. filter (same_result x) res = [x]))"
proof -
  have h1: "db_connection (state_with scenario_rows) = Some Connection"
    by (simp add: state_with_def ready_state_def)
  have h2: "sensor_readings (db_file (state_with scenario_rows)) = Some scenario_rows"
    by (simp add: state_with_def)
  show ?thesis
    using h1 h2 latest_readings_characterised [OF h1 h2] by (intro conjI)
qed

text \<open>
  C2 as stated fails: of two stored rows of the pair (deskA, temperature) with the same
  timestamp and different values, both are returned, the one of the lower id first.
\<close>

theorem tie_returns_two_rows:
  "db_connection (state_with tie_rows) = Some Connection \<and>
   sensor_readings (db_file (state_with tie_rows)) = Some tie_rows \<and>
   fst (get_latest_readings (state_with tie_rows)) =
     Some [(''deskA'', ''temperature'', SqlReal 21.5, ''C'', SqlText ''2024-01-01T00:00:00''),
           (''deskA'', ''temperature'', SqlReal 23, ''C'', SqlText ''2024-01-01T00:00:00'')]"
  by (simp add: get_latest_readings_def state_with_def ready_state_def select_latest_def
        latest_subquery_def in_subquery_def selected_def agg_max_def sql_max_def sql_lt_def
        sql_eq_def sql_is_def sql_key_def order_key_def reading_def tie_rows_def)

subsection \<open>C6: get_readings_summary\<close>




subsection \<open>The scenario of two readings\<close>

text \<open>
  After the readings 21.5 at 00:00 and 23.0 at 00:05 of (deskA, temperature), the latest
  reading is the one of 23.0.
\<close>

lemma scenario_latest:
  "fst (get_latest_readings (state_with scenario_rows)) =
     Some [(''deskA'', ''temperature'', SqlReal 23, ''C'', SqlText ''2024-01-01T00:05:00'')]"
  by (simp add: get_latest_readings_def state_with_def ready_state_def select_latest_def
        latest_subquery_def in_subquery_def selected_def agg_max_def sql_max_def sql_lt_def
        sql_eq_def sql_is_def sql_key_def order_key_def reading_def scenario_rows_def)

end
